theory Spec2Isabelle
  imports Complex_Main "HOL-Library.Sublist"
begin

section \<open>Data model (types.ts)\<close>

text \<open>
  The interfaces of \<^verbatim>\<open>types.ts\<close> as records. A JavaScript \<^verbatim>\<open>number\<close> that arrives in a
  JSON payload is a finite double; it is only ever copied and tested for being zero, so it
  is modelled as a \<open>real\<close>. \<^verbatim>\<open>string | null\<close> is a \<open>string option\<close>.
\<close>

record AnalysisFrame =
  timestamp :: string
  dominant_emotion :: string
  confidence :: real
  micro_expression :: "string option"
  active_aus :: "string list"
  incongruence :: bool
  baseline_deviation :: real
  analysis_summary :: string

datatype ConnectionState = DISCONNECTED | CONNECTING | CONNECTED | ERROR

record EmotionDataPoint =
  time :: string
  intensity :: real
  emotion :: string

section \<open>The reducer (App.tsx, lines 62-113)\<close>

record AppState =
  connectionState :: ConnectionState
  frames :: "AnalysisFrame list"
  currentFrame :: "AnalysisFrame option"
  timelineData :: "EmotionDataPoint list"
  isMicOn :: bool

datatype Action =
    SET_CONNECTION ConnectionState
  | ADD_FRAME AnalysisFrame
  | TOGGLE_MIC
  | RESET

definition initialState :: AppState where
  "initialState =
     \<lparr>connectionState = DISCONNECTED, frames = [], currentFrame = None,
      timelineData = [], isMicOn = True\<rparr>"

text \<open>
  \<^verbatim>\<open>Array.prototype.slice(start, end)\<close>: a negative index counts from the end of the
  array, every index is clamped to the array, and a missing \<^verbatim>\<open>end\<close> is the length.
\<close>

definition slice :: "int \<Rightarrow> int option \<Rightarrow> 'a list \<Rightarrow> 'a list" where
  "slice start end xs =
     (let len = int (length xs);
          k = (if start < 0 then max (len + start) 0 else min start len);
          final = (case end of
                     None \<Rightarrow> len
                   | Some e \<Rightarrow> if e < 0 then max (len + e) 0 else min e len)
      in take (nat (final - k)) (drop (nat k) xs))"

text \<open>
  \<^verbatim>\<open>appReducer(state, action)\<close>. The \<^verbatim>\<open>ADD_FRAME\<close> branch evaluates
  \<^verbatim>\<open>new Date().toLocaleTimeString()\<close>; the string that expression returns at the moment
  of the evaluation is the first argument \<open>now\<close>. The \<^verbatim>\<open>default\<close> branch of the switch
  is unreachable for a value of type \<^verbatim>\<open>Action\<close>.
\<close>

fun appReducer :: "string \<Rightarrow> AppState \<Rightarrow> Action \<Rightarrow> AppState" where
  "appReducer now state (SET_CONNECTION payload) = state\<lparr>connectionState := payload\<rparr>"
| "appReducer now state (ADD_FRAME payload) =
     (let newTimeline =
            slice (- 60) None
              (timelineData state @
                 [\<lparr>time = now,
                   intensity = baseline_deviation payload,
                   emotion = dominant_emotion payload\<rparr>])
      in state\<lparr>frames := slice 0 (Some 50) (payload # frames state),
               currentFrame := Some payload,
               timelineData := newTimeline\<rparr>)"
| "appReducer now state TOGGLE_MIC = state\<lparr>isMicOn := \<not> isMicOn state\<rparr>"
| "appReducer now state RESET = initialState"

text \<open>
  A run of the reducer over a list of events, each paired with the clock reading at
  which the reducer evaluates it.
\<close>

fun dispatch_all :: "(string \<times> Action) list \<Rightarrow> AppState \<Rightarrow> AppState" where
  "dispatch_all [] state = state"
| "dispatch_all ((now, action) # rest) state = dispatch_all rest (appReducer now state action)"

definition add_frame_events :: "(string \<times> AnalysisFrame) list \<Rightarrow> (string \<times> Action) list" where
  "add_frame_events tfs = map (\<lambda>(now, f). (now, ADD_FRAME f)) tfs"

text \<open>The timeline entry that \<^verbatim>\<open>ADD_FRAME\<close> derives from a frame at clock reading \<open>now\<close>.\<close>

definition point_of :: "string \<times> AnalysisFrame \<Rightarrow> EmotionDataPoint" where
  "point_of tf =
     \<lparr>time = fst tf, intensity = baseline_deviation (snd tf),
      emotion = dominant_emotion (snd tf)\<rparr>"

text \<open>The last \<open>n\<close> elements of a list, in their order.\<close>

definition lastn :: "nat \<Rightarrow> 'a list \<Rightarrow> 'a list" where
  "lastn n xs = drop (length xs - n) xs"

section \<open>Decoding a tool call (App.tsx, lines 183-214)\<close>

text \<open>
  The arguments of a \<^verbatim>\<open>report_analysis\<close> call, typed as the tool declaration
  \<^verbatim>\<open>analysisTool\<close> declares them (lines 22-60). The object comes from JSON, so any
  property may be missing: \<open>None\<close> is a property that is absent or \<^verbatim>\<open>null\<close>, which
  the code cannot tell apart.
\<close>

record report_analysis_args =
  arg_dominant_emotion :: "string option"
  arg_confidence :: "real option"
  arg_micro_expression :: "string option"
  arg_active_aus :: "string list option"
  arg_incongruence :: "bool option"
  arg_baseline_deviation :: "real option"
  arg_analysis_summary :: "string option"

text \<open>
  JavaScript truthiness by type: the empty string, zero and \<^verbatim>\<open>false\<close> are falsy, every
  array is truthy, \<^verbatim>\<open>undefined\<close> and \<^verbatim>\<open>null\<close> are falsy.
\<close>

definition truthy_string :: "string \<Rightarrow> bool" where
  "truthy_string s = (s \<noteq> [])"

definition truthy_number :: "real \<Rightarrow> bool" where
  "truthy_number n = (n \<noteq> 0)"

definition truthy_boolean :: "bool \<Rightarrow> bool" where
  "truthy_boolean b = b"

definition truthy_array :: "'a list \<Rightarrow> bool" where
  "truthy_array xs = True"

text \<open>\<^verbatim>\<open>v || d\<close>: the left operand when it is truthy, the right operand otherwise.\<close>

definition js_or :: "('a \<Rightarrow> bool) \<Rightarrow> 'a option \<Rightarrow> 'a \<Rightarrow> 'a" where
  "js_or truthy v d = (case v of None \<Rightarrow> d | Some x \<Rightarrow> if truthy x then x else d)"

text \<open>\<^verbatim>\<open>v || null\<close>.\<close>

definition js_or_null :: "('a \<Rightarrow> bool) \<Rightarrow> 'a option \<Rightarrow> 'a option" where
  "js_or_null truthy v = (case v of None \<Rightarrow> None | Some x \<Rightarrow> if truthy x then Some x else None)"

text \<open>
  The object literal \<^verbatim>\<open>frame\<close> of the \<^verbatim>\<open>onmessage\<close> callback (lines 190-199);
  \<open>nowISO\<close> is what \<^verbatim>\<open>new Date().toISOString()\<close> returns there.
\<close>

definition report_analysis_frame :: "string \<Rightarrow> report_analysis_args \<Rightarrow> AnalysisFrame" where
  "report_analysis_frame nowISO data =
     \<lparr>timestamp = nowISO,
      dominant_emotion = js_or truthy_string (arg_dominant_emotion data) ''Neutral'',
      confidence = js_or truthy_number (arg_confidence data) 0,
      micro_expression = js_or_null truthy_string (arg_micro_expression data),
      active_aus = js_or truthy_array (arg_active_aus data) [],
      incongruence = js_or truthy_boolean (arg_incongruence data) False,
      baseline_deviation = js_or truthy_number (arg_baseline_deviation data) 0,
      analysis_summary = js_or truthy_string (arg_analysis_summary data) ''Processing...''\<rparr>"

section \<open>The component: references, collaborators, handlers (App.tsx, lines 117-330)\<close>

text \<open>
  What the component hands to the remote session: \<^verbatim>\<open>sendRealtimeInput({media: ...})\<close>
  with an encoded audio buffer or with a \<^verbatim>\<open>{mimeType, data}\<close> image, and
  \<^verbatim>\<open>send({parts: [{text}]})\<close>. The type \<open>'b\<close> is the result type of
  \<^verbatim>\<open>createPcmBlob\<close>, whose module \<^verbatim>\<open>utils/audioUtils\<close> is a parameter here.
\<close>

datatype 'b outgoing =
    RealtimeAudio 'b
  | RealtimeImage string string
  | ClientText string

text \<open>
  The state of one mounted component and of the browser objects it touches.
  \<^item> \<open>app\<close> is the state held by \<^verbatim>\<open>useReducer\<close>; \<open>clock\<close> is what
    \<^verbatim>\<open>new Date().toLocaleTimeString()\<close> returns at present.
  \<^item> The \<^verbatim>\<open>useRef\<close> cells keep their names. A browser object is a handle (a number);
    a \<^verbatim>\<open>MediaStream\<close> is the list of its tracks. \<open>None\<close> is \<^verbatim>\<open>null\<close>.
  \<^item> \<open>intervals\<close> are the interval timers that are scheduled, \<open>connected_nodes\<close> the audio
    nodes that have connections, \<open>open_contexts\<close> the audio contexts not yet closed,
    \<open>live_tracks\<close> the media tracks not yet stopped.
  \<^item> \<open>onaudioprocess_closure\<close> is the function assigned to \<^verbatim>\<open>processor.onaudioprocess\<close>,
    given by the two variables it closes over: \<^verbatim>\<open>state\<close> and \<^verbatim>\<open>session\<close>.
  \<^item> \<open>console\<close>, \<open>getUserMedia_calls\<close>, \<open>live_connect_calls\<close> and \<open>sent\<close> record the calls
    made to the console, to \<^verbatim>\<open>navigator.mediaDevices.getUserMedia\<close>, to
    \<^verbatim>\<open>client.live.connect\<close> and to a session (with the session's handle).
\<close>

record 'b Runtime =
  app :: AppState
  clock :: string
  streamRef :: "nat list option"
  audioContextRef :: "nat option"
  processorRef :: "nat option"
  sourceRef :: "nat option"
  frameIntervalRef :: "nat option"
  sessionRef :: "nat option"
  processingRef :: bool
  intervals :: "nat list"
  connected_nodes :: "nat list"
  open_contexts :: "nat list"
  live_tracks :: "nat list"
  onaudioprocess_closure :: "(AppState \<times> nat) option"
  console :: "string list"
  getUserMedia_calls :: nat
  live_connect_calls :: nat
  sent :: "(nat \<times> 'b outgoing) list"

text \<open>
  The component as mounted: \<^verbatim>\<open>useReducer(appReducer, initialState)\<close>, every
  \<^verbatim>\<open>useRef(null)\<close>, \<^verbatim>\<open>useRef(false)\<close> for \<^verbatim>\<open>processingRef\<close>, and nothing acquired.
\<close>

definition initialRuntime :: "string \<Rightarrow> 'b Runtime" where
  "initialRuntime now =
     \<lparr>app = initialState, clock = now, streamRef = None, audioContextRef = None,
      processorRef = None, sourceRef = None, frameIntervalRef = None, sessionRef = None,
      processingRef = False, intervals = [], connected_nodes = [], open_contexts = [],
      live_tracks = [], onaudioprocess_closure = None, console = [],
      getUserMedia_calls = 0, live_connect_calls = 0, sent = []\<rparr>"

definition dispatch :: "Action \<Rightarrow> 'b Runtime \<Rightarrow> 'b Runtime" where
  "dispatch action rt = rt\<lparr>app := appReducer (clock rt) (app rt) action\<rparr>"

text \<open>
  \<^verbatim>\<open>stopStreaming\<close> (lines 305-324), one definition for each of its statements.
  \<^verbatim>\<open>clearInterval\<close> unschedules the timer of the given id and does nothing for an id
  that is not scheduled; the test \<^verbatim>\<open>if (frameIntervalRef.current)\<close> is false for
  \<^verbatim>\<open>null\<close> and for \<open>0\<close>, and the cell is not reset. Every other cell is tested, used
  and set to \<^verbatim>\<open>null\<close>. The session is not closed: only its cell is cleared. No
  statement can throw: every object is used under the test that it is there.
\<close>

definition clear_frame_interval :: "'b Runtime \<Rightarrow> 'b Runtime" where
  "clear_frame_interval rt =
     (case frameIntervalRef rt of
        None \<Rightarrow> rt
      | Some t \<Rightarrow> if t = 0 then rt else rt\<lparr>intervals := removeAll t (intervals rt)\<rparr>)"

definition disconnect_processor :: "'b Runtime \<Rightarrow> 'b Runtime" where
  "disconnect_processor rt =
     (case processorRef rt of
        None \<Rightarrow> rt
      | Some p \<Rightarrow> rt\<lparr>connected_nodes := removeAll p (connected_nodes rt), processorRef := None\<rparr>)"

definition disconnect_source :: "'b Runtime \<Rightarrow> 'b Runtime" where
  "disconnect_source rt =
     (case sourceRef rt of
        None \<Rightarrow> rt
      | Some src \<Rightarrow> rt\<lparr>connected_nodes := removeAll src (connected_nodes rt), sourceRef := None\<rparr>)"

definition close_audio_context :: "'b Runtime \<Rightarrow> 'b Runtime" where
  "close_audio_context rt =
     (case audioContextRef rt of
        None \<Rightarrow> rt
      | Some c \<Rightarrow> rt\<lparr>open_contexts := removeAll c (open_contexts rt), audioContextRef := None\<rparr>)"

definition stop_tracks :: "'b Runtime \<Rightarrow> 'b Runtime" where
  "stop_tracks rt =
     (case streamRef rt of
        None \<Rightarrow> rt
      | Some tracks \<Rightarrow>
          rt\<lparr>live_tracks := filter (\<lambda>t. t \<notin> set tracks) (live_tracks rt), streamRef := None\<rparr>)"

definition stopStreaming :: "'b Runtime \<Rightarrow> 'b Runtime" where
  "stopStreaming rt =
     (stop_tracks
        (close_audio_context
           (disconnect_source
              (disconnect_processor
                 (clear_frame_interval rt)))))\<lparr>sessionRef := None\<rparr>"

text \<open>\<^verbatim>\<open>disconnect\<close> (lines 238-241).\<close>

definition disconnect :: "'b Runtime \<Rightarrow> 'b Runtime" where
  "disconnect rt = dispatch (SET_CONNECTION DISCONNECTED) (stopStreaming rt)"

text \<open>
  \<^verbatim>\<open>connect\<close> (lines 135-236) runs in pieces, one per \<^verbatim>\<open>await\<close>. The first piece
  reads \<^verbatim>\<open>process.env.API_KEY\<close> (a string, or \<open>None\<close> for \<^verbatim>\<open>undefined\<close>) and either
  returns at once or dispatches \<^verbatim>\<open>CONNECTING\<close>, calls \<^verbatim>\<open>getUserMedia\<close> and waits.
\<close>

datatype 'b connect_step = Aborted "'b Runtime" | AwaitingMedia "'b Runtime"

fun runtime_of :: "'b connect_step \<Rightarrow> 'b Runtime" where
  "runtime_of (Aborted rt) = rt"
| "runtime_of (AwaitingMedia rt) = rt"

definition connect :: "string option \<Rightarrow> 'b Runtime \<Rightarrow> 'b connect_step" where
  "connect apiKey rt =
     (if \<not> (case apiKey of None \<Rightarrow> False | Some k \<Rightarrow> truthy_string k)
      then Aborted (rt\<lparr>console := console rt @ [''API_KEY is missing in environment variables.'']\<rparr>)
      else AwaitingMedia
             ((dispatch (SET_CONNECTION CONNECTING) rt)
                \<lparr>getUserMedia_calls := Suc (getUserMedia_calls rt)\<rparr>))"

text \<open>
  The next pieces: \<^verbatim>\<open>getUserMedia\<close> resolves with a stream (lines 150-155), then the
  client is made and \<^verbatim>\<open>client.live.connect\<close> is called (lines 158-226), then
  \<^verbatim>\<open>sessionPromise\<close> resolves (lines 228-229). A rejection at any \<^verbatim>\<open>await\<close> runs
  the \<^verbatim>\<open>catch\<close> block (lines 231-235).
\<close>

definition connect_media_granted :: "nat list \<Rightarrow> 'b Runtime \<Rightarrow> 'b Runtime" where
  "connect_media_granted stream rt =
     rt\<lparr>streamRef := Some stream, live_tracks := live_tracks rt @ stream\<rparr>"

definition connect_open_session :: "'b Runtime \<Rightarrow> 'b Runtime" where
  "connect_open_session rt = rt\<lparr>live_connect_calls := Suc (live_connect_calls rt)\<rparr>"

definition connect_session_ready :: "nat \<Rightarrow> 'b Runtime \<Rightarrow> 'b Runtime" where
  "connect_session_ready session rt = rt\<lparr>sessionRef := Some session\<rparr>"

definition connect_catch :: "'b Runtime \<Rightarrow> 'b Runtime" where
  "connect_catch rt =
     stopStreaming
       (dispatch (SET_CONNECTION ERROR) (rt\<lparr>console := console rt @ [''Connection failed:'']\<rparr>))"

text \<open>The handles the browser gives to the objects \<^verbatim>\<open>startStreaming\<close> creates.\<close>

record fresh_handles =
  new_context :: nat
  new_source :: nat
  new_processor :: nat
  new_timer :: nat

text \<open>
  \<^verbatim>\<open>startStreaming(session)\<close> (lines 245-303), in the run where the audio context is
  not suspended, so that no other callback runs in its middle. The function is a
  closure of one render of the component: its free variable \<^verbatim>\<open>state\<close> is the constant
  that \<^verbatim>\<open>useReducer\<close> returned in that render, the first argument here. The handler it
  assigns to \<^verbatim>\<open>processor.onaudioprocess\<close> closes over the same \<^verbatim>\<open>state\<close> and over
  \<^verbatim>\<open>session\<close>. The interval is set whether or not there is a stream.
\<close>

definition startStreaming :: "AppState \<Rightarrow> nat \<Rightarrow> fresh_handles \<Rightarrow> 'b Runtime \<Rightarrow> 'b Runtime" where
  "startStreaming state session h rt =
     (let rt1 = (case streamRef rt of
                   None \<Rightarrow> rt
                 | Some stream \<Rightarrow>
                     rt\<lparr>audioContextRef := Some (new_context h),
                        open_contexts := new_context h # open_contexts rt,
                        sourceRef := Some (new_source h),
                        processorRef := Some (new_processor h),
                        onaudioprocess_closure := Some (state, session),
                        connected_nodes := new_source h # new_processor h # connected_nodes rt\<rparr>)
      in rt1\<lparr>frameIntervalRef := Some (new_timer h),
              intervals := new_timer h # intervals rt1\<rparr>)"

text \<open>
  The handler \<^verbatim>\<open>processor.onaudioprocess\<close> (lines 262-267), with the \<^verbatim>\<open>state\<close> and the
  \<^verbatim>\<open>session\<close> it closes over, and the samples \<^verbatim>\<open>e.inputBuffer.getChannelData(0)\<close>.
\<close>

definition onaudioprocess :: "('a \<Rightarrow> 'b) \<Rightarrow> AppState \<Rightarrow> nat \<Rightarrow> 'a \<Rightarrow> 'b Runtime \<Rightarrow> 'b Runtime" where
  "onaudioprocess createPcmBlob state session inputData rt =
     (if \<not> isMicOn state then rt
      else rt\<lparr>sent := sent rt @ [(session, RealtimeAudio (createPcmBlob inputData))]\<rparr>)"

text \<open>The capture subsystem delivers a buffer: it calls the handler that is installed.\<close>

definition audio_buffer_delivered :: "('a \<Rightarrow> 'b) \<Rightarrow> 'a \<Rightarrow> 'b Runtime \<Rightarrow> 'b Runtime" where
  "audio_buffer_delivered createPcmBlob inputData rt =
     (case onaudioprocess_closure rt of
        None \<Rightarrow> rt
      | Some (state, session) \<Rightarrow> onaudioprocess createPcmBlob state session inputData rt)"

text \<open>
  The \<^verbatim>\<open>onopen\<close> callback (lines 172-182), a closure of the same render as the
  \<^verbatim>\<open>connect\<close> that passed it: it dispatches \<^verbatim>\<open>CONNECTED\<close>, and when the session promise
  has resolved it calls that render's \<^verbatim>\<open>startStreaming\<close> and sends the kick-off text.
\<close>

definition onopen :: "AppState \<Rightarrow> nat \<Rightarrow> fresh_handles \<Rightarrow> 'b Runtime \<Rightarrow> 'b Runtime" where
  "onopen state session h rt =
     (let rt1 = startStreaming state session h (dispatch (SET_CONNECTION CONNECTED) rt)
      in rt1\<lparr>sent := sent rt1 @ [(session, ClientText ''Begin continuous visual analysis.'')]\<rparr>)"

text \<open>
  What a tick of the frame interval finds: whether \<^verbatim>\<open>videoRef.current\<close> and
  \<^verbatim>\<open>canvasRef.current\<close> are set, whether \<^verbatim>\<open>getContext('2d')\<close> gives a context, the
  video's \<^verbatim>\<open>readyState\<close>, and the base64 text that
  \<^verbatim>\<open>canvas.toDataURL('image/jpeg', 0.6).split(',')[1]\<close> gives for the frame on display.
\<close>

record video_env =
  video_mounted :: bool
  canvas_mounted :: bool
  ctx_available :: bool
  readyState :: nat
  jpeg_base64 :: string

text \<open>
  The interval callback (lines 274-302) up to its \<^verbatim>\<open>await\<close>: when it sends a frame it
  stops there with \<^verbatim>\<open>processingRef\<close> still set; when there is nothing to draw it runs
  to its end and clears the flag.
\<close>

definition frame_tick :: "nat \<Rightarrow> video_env \<Rightarrow> 'b Runtime \<Rightarrow> 'b Runtime" where
  "frame_tick session env rt =
     (if video_mounted env \<and> canvas_mounted env \<and> \<not> processingRef rt then
        (let rt1 = rt\<lparr>processingRef := True\<rparr>
         in if ctx_available env \<and> readyState env = 4
            then rt1\<lparr>sent := sent rt1 @ [(session, RealtimeImage ''image/jpeg'' (jpeg_base64 env))]\<rparr>
            else rt1\<lparr>processingRef := False\<rparr>)
      else rt)"

text \<open>
  The rest of the callback, when the send has settled: a rejection is logged and
  swallowed, and the flag is cleared.
\<close>

definition frame_tick_settled :: "bool \<Rightarrow> 'b Runtime \<Rightarrow> 'b Runtime" where
  "frame_tick_settled rejected rt =
     (let rt1 = (if rejected then rt\<lparr>console := console rt @ [''Frame send error'']\<rparr> else rt)
      in rt1\<lparr>processingRef := False\<rparr>)"

text \<open>A schedule of the video producer: ticks of the timer and settlements of sends.\<close>

datatype video_event = Tick video_env | SendSettled bool

fun run_video :: "nat \<Rightarrow> video_event list \<Rightarrow> 'b Runtime \<Rightarrow> 'b Runtime" where
  "run_video session [] rt = rt"
| "run_video session (Tick env # rest) rt = run_video session rest (frame_tick session env rt)"
| "run_video session (SendSettled rejected # rest) rt =
     run_video session rest (frame_tick_settled rejected rt)"

text \<open>The frames on display at the ticks of a schedule, in the order of the ticks.\<close>

fun tick_frames :: "video_event list \<Rightarrow> string list" where
  "tick_frames [] = []"
| "tick_frames (Tick env # rest) = jpeg_base64 env # tick_frames rest"
| "tick_frames (SendSettled rejected # rest) = tick_frames rest"

text \<open>The images among the messages sent, in the order they were sent.\<close>

fun images :: "(nat \<times> 'b outgoing) list \<Rightarrow> string list" where
  "images [] = []"
| "images ((session, RealtimeImage mime data) # rest) = data # images rest"
| "images (other # rest) = images rest"

text \<open>
  Nothing is held: every cell but the timer's is \<^verbatim>\<open>null\<close>, and the timer cell is
  \<^verbatim>\<open>null\<close>, \<open>0\<close> or the id of a timer that is no longer scheduled.
\<close>

definition nothing_held :: "'b Runtime \<Rightarrow> bool" where
  "nothing_held rt =
     (streamRef rt = None \<and> audioContextRef rt = None \<and> processorRef rt = None
      \<and> sourceRef rt = None \<and> sessionRef rt = None
      \<and> (case frameIntervalRef rt of None \<Rightarrow> True | Some t \<Rightarrow> t = 0 \<or> t \<notin> set (intervals rt)))"

text \<open>A frame for examples.\<close>

definition sample_frame :: "nat \<Rightarrow> AnalysisFrame" where
  "sample_frame n =
     \<lparr>timestamp = ''2025-01-01T09:00:00.000Z'', dominant_emotion = ''Happy'', confidence = 80,
      micro_expression = None, active_aus = [''AU12''], incongruence = False,
      baseline_deviation = real n, analysis_summary = ''Smiling''\<rparr>"

text \<open>A tick that finds everything in place, showing the frame \<open>data\<close>.\<close>

definition ready_env :: "string \<Rightarrow> video_env" where
  "ready_env data =
     \<lparr>video_mounted = True, canvas_mounted = True, ctx_available = True, readyState = 4,
      jpeg_base64 = data\<rparr>"

text \<open>The number of settlements in a schedule.\<close>

fun settlements :: "video_event list \<Rightarrow> nat" where
  "settlements [] = 0"
| "settlements (Tick env # rest) = settlements rest"
| "settlements (SendSettled rejected # rest) = Suc (settlements rest)"

text \<open>
  What is left of a list of handles after the teardown of the object in a cell:
  of the connected nodes or open contexts, of the scheduled timers, of the live tracks.
\<close>

fun without :: "nat option \<Rightarrow> nat list \<Rightarrow> nat list" where
  "without None xs = xs"
| "without (Some h) xs = removeAll h xs"

fun unscheduled :: "nat option \<Rightarrow> nat list \<Rightarrow> nat list" where
  "unscheduled None xs = xs"
| "unscheduled (Some t) xs = (if t = 0 then xs else removeAll t xs)"

fun without_tracks :: "nat list option \<Rightarrow> nat list \<Rightarrow> nat list" where
  "without_tracks None xs = xs"
| "without_tracks (Some tracks) xs = filter (\<lambda>t. t \<notin> set tracks) xs"

section \<open>Properties of the reducer\<close>

lemma slice_prefix: "slice 0 (Some (int n)) xs = take n xs"
  by (simp add: slice_def Let_def min_def)

lemma slice_suffix: "slice (- 60) None xs = lastn 60 xs"
proof -
  have "nat (max (int (length xs) - 60) 0) = length xs - 60"
    by linarith
  then show ?thesis
    by (simp add: slice_def lastn_def Let_def)
qed

lemma add_frame_frames:
  "frames (appReducer now s (ADD_FRAME f)) = take 50 (f # frames s)"
  using slice_prefix [of 50 "f # frames s"] by (simp add: Let_def)

lemma add_frame_timeline:
  "timelineData (appReducer now s (ADD_FRAME f)) = lastn 60 (timelineData s @ [point_of (now, f)])"
  by (simp add: Let_def point_of_def slice_suffix)

text \<open>
  C9: for every state, the toggle-mic event negates the mic flag and leaves the
  connection state, the frames history, the current frame and the timeline as they were.
\<close>

theorem toggle_mic_flips_only_mic:
  "isMicOn (appReducer now s TOGGLE_MIC) = (\<not> isMicOn s)
   \<and> connectionState (appReducer now s TOGGLE_MIC) = connectionState s
   \<and> frames (appReducer now s TOGGLE_MIC) = frames s
   \<and> currentFrame (appReducer now s TOGGLE_MIC) = currentFrame s
   \<and> timelineData (appReducer now s TOGGLE_MIC) = timelineData s
   \<and> appReducer now s TOGGLE_MIC = s\<lparr>isMicOn := \<not> isMicOn s\<rparr>"
  by simp

text \<open>
  C10: whatever events came before, and so in every state, the reset event yields
  exactly the initial state: Disconnected, empty history, empty timeline, no current
  frame, mic on.
\<close>

theorem reset_restores_initial:
  "appReducer now (dispatch_all events s) RESET = initialState
   \<and> appReducer now s RESET = initialState
   \<and> initialState =
       \<lparr>connectionState = DISCONNECTED, frames = [], currentFrame = None,
        timelineData = [], isMicOn = True\<rparr>"
  by (simp add: initialState_def)


lemma take_append_take: "take n (xs @ take n ys) = take n (xs @ ys)"
  by (simp add: min_def)

lemma lastn_rev: "lastn n xs = rev (take n (rev xs))"
  by (simp add: lastn_def rev_take)

lemma lastn_append_lastn: "lastn n (lastn n xs @ ys) = lastn n (xs @ ys)"
  by (simp add: lastn_rev take_append_take)

lemma length_lastn: "length (lastn n xs) = min n (length xs)"
  by (simp add: lastn_def)

lemma lastn_map: "lastn n (map f xs) = map f (lastn n xs)"
  by (simp add: lastn_def drop_map)

lemma lastn_snoc: "0 < n \<Longrightarrow> lastn n (xs @ [p]) = lastn (n - 1) xs @ [p]"
  by (auto simp: lastn_def)

lemma add_frame_timeline_snoc:
  "timelineData (appReducer now s (ADD_FRAME f)) = lastn 59 (timelineData s) @ [point_of (now, f)]"
  by (simp add: add_frame_timeline lastn_snoc del: appReducer.simps)

lemma intensity_point_of:
  "map intensity (map point_of tfs) = map baseline_deviation (map snd tfs)"
  by (simp add: point_of_def)

text \<open>
  The history after a run of add-frame events, from any state whose history is within
  the cap: the new frames, latest first, in front of the old ones, cut at 50.
\<close>

lemma frames_dispatch_add:
  "length (frames s) \<le> 50 \<Longrightarrow>
   frames (dispatch_all (add_frame_events tfs) s) = take 50 (rev (map snd tfs) @ frames s)"
proof (induction tfs arbitrary: s)
  case Nil
  then show ?case by (simp add: add_frame_events_def)
next
  case (Cons tf tfs)
  obtain now f where tf: "tf = (now, f)" by (cases tf)
  have "frames (dispatch_all (add_frame_events (tf # tfs)) s)
        = frames (dispatch_all (add_frame_events tfs) (appReducer now s (ADD_FRAME f)))"
    by (simp add: add_frame_events_def tf)
  also have "\<dots> = take 50 (rev (map snd tfs) @ take 50 (f # frames s))"
    by (simp add: Cons.IH add_frame_frames del: appReducer.simps)
  also have "\<dots> = take 50 (rev (map snd tfs) @ f # frames s)"
    by (rule take_append_take)
  finally show ?case by (simp add: tf)
qed

lemma timeline_dispatch_add:
  "length (timelineData s) \<le> 60 \<Longrightarrow>
   timelineData (dispatch_all (add_frame_events tfs) s)
   = lastn 60 (timelineData s @ map point_of tfs)"
proof (induction tfs arbitrary: s)
  case Nil
  then show ?case by (simp add: add_frame_events_def lastn_def)
next
  case (Cons tf tfs)
  obtain now f where tf: "tf = (now, f)" by (cases tf)
  have "timelineData (dispatch_all (add_frame_events (tf # tfs)) s)
        = timelineData (dispatch_all (add_frame_events tfs) (appReducer now s (ADD_FRAME f)))"
    by (simp add: add_frame_events_def tf)
  also have "\<dots> = lastn 60 (lastn 60 (timelineData s @ [point_of (now, f)]) @ map point_of tfs)"
    by (simp add: Cons.IH add_frame_timeline length_lastn del: appReducer.simps)
  also have "\<dots> = lastn 60 ((timelineData s @ [point_of (now, f)]) @ map point_of tfs)"
    by (rule lastn_append_lastn)
  finally show ?case by (simp add: tf)
qed

text \<open>
  C1: after any sequence of add-frame events from the initial state (each evaluated at
  any clock reading), the history is the frames of the events latest first, cut at 50:
  it is the reverse of the last 50 frames added, so its length is the minimum of 50 and
  the number of events, it never exceeds 50, and what is dropped is the oldest.
\<close>

theorem history_bounded_fifo:
  "frames (dispatch_all (add_frame_events tfs) initialState) = take 50 (rev (map snd tfs))
   \<and> frames (dispatch_all (add_frame_events tfs) initialState) = rev (lastn 50 (map snd tfs))
   \<and> length (frames (dispatch_all (add_frame_events tfs) initialState)) = min 50 (length tfs)
   \<and> length (frames (dispatch_all (add_frame_events tfs) initialState)) \<le> 50"
proof -
  have init: "length (frames initialState) \<le> 50"
    by (simp add: initialState_def)
  have eq: "frames (dispatch_all (add_frame_events tfs) initialState) = take 50 (rev (map snd tfs))"
    using frames_dispatch_add [OF init, of tfs] by (simp add: initialState_def)
  have "take 50 (rev (map snd tfs)) = rev (lastn 50 (map snd tfs))"
    by (simp add: lastn_rev)
  with eq show ?thesis by (simp add: length_lastn)
qed

text \<open>
  The scenario of the specification: 51 add-frame events with deviations 1 to 51 leave
  the frames 51 down to 2 in the history; frame 1 is gone.
\<close>

theorem history_bounded_fifo_witness:
  "frames (dispatch_all (add_frame_events (map (\<lambda>n. (''9:00:00 AM'', sample_frame n)) [1..<52]))
             initialState)
   = map sample_frame (rev [2..<52])"
  by (simp only: history_bounded_fifo) code_simp

text \<open>
  C2: after any sequence of add-frame events from the initial state, the timeline is
  the last 60 derived entries in the order of the events (so it never exceeds 60 and the
  oldest entry is the one dropped), and the intensity of every entry is the
  baseline deviation of the frame it was derived from. Against the history, which is
  latest first and keeps 50: the intensities of the 50 latest timeline entries, read
  from the latest back, are the baseline deviations of the history's frames in order.
\<close>

theorem timeline_bounded_fifo:
  "timelineData (dispatch_all (add_frame_events tfs) initialState) = lastn 60 (map point_of tfs)
   \<and> length (timelineData (dispatch_all (add_frame_events tfs) initialState)) = min 60 (length tfs)
   \<and> length (timelineData (dispatch_all (add_frame_events tfs) initialState)) \<le> 60
   \<and> map intensity (timelineData (dispatch_all (add_frame_events tfs) initialState))
       = map baseline_deviation (lastn 60 (map snd tfs))
   \<and> map intensity (take 50 (rev (timelineData (dispatch_all (add_frame_events tfs) initialState))))
       = map baseline_deviation (frames (dispatch_all (add_frame_events tfs) initialState))"
proof -
  let ?s = "dispatch_all (add_frame_events tfs) initialState"
  have init: "length (timelineData initialState) \<le> 60" "length (frames initialState) \<le> 50"
    by (simp_all add: initialState_def)
  have tl: "timelineData ?s = lastn 60 (map point_of tfs)"
    using timeline_dispatch_add [OF init(1), of tfs] by (simp add: initialState_def)
  have fr: "frames ?s = take 50 (rev (map snd tfs))"
    using frames_dispatch_add [OF init(2), of tfs] by (simp add: initialState_def)
  have len: "length (timelineData ?s) = min 60 (length tfs)"
    by (simp add: tl length_lastn)
  have ints: "map intensity (timelineData ?s) = map baseline_deviation (lastn 60 (map snd tfs))"
    by (simp only: tl lastn_map [symmetric] intensity_point_of)
  have "rev (timelineData ?s) = take 60 (rev (map point_of tfs))"
    by (simp add: tl lastn_rev)
  then have "take 50 (rev (timelineData ?s)) = take 50 (rev (map point_of tfs))"
    by simp
  then have "map intensity (take 50 (rev (timelineData ?s)))
             = take 50 (rev (map intensity (map point_of tfs)))"
    by (simp only: take_map rev_map)
  also have "\<dots> = map baseline_deviation (frames ?s)"
    by (simp only: fr intensity_point_of take_map rev_map)
  finally have hist:
    "map intensity (take 50 (rev (timelineData ?s))) = map baseline_deviation (frames ?s)" .
  from tl len ints hist show ?thesis by simp
qed

text \<open>
  C3 does not hold as stated: two evaluations of the reducer on the same state and the
  same add-frame event, one second apart, give different states, because the new
  timeline entry carries the clock reading.
\<close>

theorem reducer_clock_counterexample:
  "appReducer ''9:00:00 AM'' initialState (ADD_FRAME (sample_frame 10))
   \<noteq> appReducer ''9:00:01 AM'' initialState (ADD_FRAME (sample_frame 10))"
proof
  assume "appReducer ''9:00:00 AM'' initialState (ADD_FRAME (sample_frame 10))
          = appReducer ''9:00:01 AM'' initialState (ADD_FRAME (sample_frame 10))"
  then have "timelineData (appReducer ''9:00:00 AM'' initialState (ADD_FRAME (sample_frame 10)))
          = timelineData (appReducer ''9:00:01 AM'' initialState (ADD_FRAME (sample_frame 10)))"
    by simp
  then show False
    by (simp add: add_frame_timeline_snoc point_of_def del: appReducer.simps)
qed

text \<open>
  C3, as the code has it: the reducer is a function of the state, the event and the
  clock reading. For set-connection-state, toggle-mic and reset the clock reading makes
  no difference. For add-frame, two evaluations on the same state and event differ at
  most in the time label of the one timeline entry they append: the results are equal
  once that last entry is replaced, and the intensities and emotions of their timelines
  are the same.
\<close>

theorem reducer_deterministic_given_clock:
  "appReducer t1 s (SET_CONNECTION c) = appReducer t2 s (SET_CONNECTION c)
   \<and> appReducer t1 s TOGGLE_MIC = appReducer t2 s TOGGLE_MIC
   \<and> appReducer t1 s RESET = appReducer t2 s RESET
   \<and> appReducer t1 s (ADD_FRAME f)
       = (appReducer t2 s (ADD_FRAME f))
           \<lparr>timelineData :=
              butlast (timelineData (appReducer t2 s (ADD_FRAME f))) @ [point_of (t1, f)]\<rparr>
   \<and> map intensity (timelineData (appReducer t1 s (ADD_FRAME f)))
       = map intensity (timelineData (appReducer t2 s (ADD_FRAME f)))
   \<and> map emotion (timelineData (appReducer t1 s (ADD_FRAME f)))
       = map emotion (timelineData (appReducer t2 s (ADD_FRAME f)))"
proof -
  have tl: "\<And>t. timelineData (appReducer t s (ADD_FRAME f))
                 = lastn 59 (timelineData s) @ [point_of (t, f)]"
    by (rule add_frame_timeline_snoc)
  have rest: "\<And>t. appReducer t s (ADD_FRAME f)
        = s\<lparr>frames := slice 0 (Some 50) (f # frames s), currentFrame := Some f,
             timelineData := lastn 59 (timelineData s) @ [point_of (t, f)]\<rparr>"
    using tl by (simp add: Let_def)
  have add: "appReducer t1 s (ADD_FRAME f)
       = (appReducer t2 s (ADD_FRAME f))
           \<lparr>timelineData :=
              butlast (timelineData (appReducer t2 s (ADD_FRAME f))) @ [point_of (t1, f)]\<rparr>"
    by (simp add: rest tl del: appReducer.simps)
  have ints: "map intensity (timelineData (appReducer t1 s (ADD_FRAME f)))
       = map intensity (timelineData (appReducer t2 s (ADD_FRAME f)))"
    by (simp add: tl point_of_def del: appReducer.simps)
  have emos: "map emotion (timelineData (appReducer t1 s (ADD_FRAME f)))
       = map emotion (timelineData (appReducer t2 s (ADD_FRAME f)))"
    by (simp add: tl point_of_def del: appReducer.simps)
  from add ints emos show ?thesis by simp
qed

section \<open>Properties of the tool-call decoding\<close>

text \<open>
  C5 does not hold as stated: for a payload whose summary is present and empty, the
  frame does not take it unchanged, it gets the default summary.
\<close>

theorem report_analysis_present_counterexample:
  "analysis_summary
     (report_analysis_frame ''2025-01-01T09:00:00.000Z''
        \<lparr>arg_dominant_emotion = Some ''Happy'', arg_confidence = Some 80,
         arg_micro_expression = Some '''', arg_active_aus = Some [''AU12''],
         arg_incongruence = Some False, arg_baseline_deviation = Some 10,
         arg_analysis_summary = Some ''''\<rparr>)
   = ''Processing...''
   \<and> analysis_summary
     (report_analysis_frame ''2025-01-01T09:00:00.000Z''
        \<lparr>arg_dominant_emotion = Some ''Happy'', arg_confidence = Some 80,
         arg_micro_expression = Some '''', arg_active_aus = Some [''AU12''],
         arg_incongruence = Some False, arg_baseline_deviation = Some 10,
         arg_analysis_summary = Some ''''\<rparr>)
   \<noteq> ''''"
  by (simp add: report_analysis_frame_def js_or_def truthy_string_def)

text \<open>
  C5, as the code has it: a field that is absent gets its default (emotion
  \<open>Neutral\<close>, confidence 0, no micro expression, no action units, incongruence false,
  deviation 0, summary \<open>Processing...\<close>); a field that is present is taken unchanged,
  except that an empty string counts as absent: an empty emotion becomes \<open>Neutral\<close>, an
  empty micro expression becomes none, an empty summary becomes \<open>Processing...\<close>. (A
  present 0 or false is its own default, and a present empty list of action units is kept.)
\<close>

theorem report_analysis_defaults:
  "timestamp (report_analysis_frame nowISO data) = nowISO
   \<and> dominant_emotion (report_analysis_frame nowISO data)
       = (case arg_dominant_emotion data of
            None \<Rightarrow> ''Neutral'' | Some e \<Rightarrow> if e = '''' then ''Neutral'' else e)
   \<and> confidence (report_analysis_frame nowISO data)
       = (case arg_confidence data of None \<Rightarrow> 0 | Some c \<Rightarrow> c)
   \<and> micro_expression (report_analysis_frame nowISO data)
       = (case arg_micro_expression data of
            None \<Rightarrow> None | Some m \<Rightarrow> if m = '''' then None else Some m)
   \<and> active_aus (report_analysis_frame nowISO data)
       = (case arg_active_aus data of None \<Rightarrow> [] | Some aus \<Rightarrow> aus)
   \<and> incongruence (report_analysis_frame nowISO data)
       = (case arg_incongruence data of None \<Rightarrow> False | Some b \<Rightarrow> b)
   \<and> baseline_deviation (report_analysis_frame nowISO data)
       = (case arg_baseline_deviation data of None \<Rightarrow> 0 | Some d \<Rightarrow> d)
   \<and> analysis_summary (report_analysis_frame nowISO data)
       = (case arg_analysis_summary data of
            None \<Rightarrow> ''Processing...'' | Some t \<Rightarrow> if t = '''' then ''Processing...'' else t)"
  by (simp add: report_analysis_frame_def js_or_def js_or_null_def truthy_string_def
      truthy_number_def truthy_boolean_def truthy_array_def split: option.split)

theorem report_analysis_defaults_witness:
  "report_analysis_frame ''2025-01-01T09:00:00.000Z''
        \<lparr>arg_dominant_emotion = None, arg_confidence = None,
         arg_micro_expression = None, arg_active_aus = None,
         arg_incongruence = None, arg_baseline_deviation = None,
         arg_analysis_summary = None\<rparr>
   = \<lparr>timestamp = ''2025-01-01T09:00:00.000Z'', dominant_emotion = ''Neutral'', confidence = 0,
      micro_expression = None, active_aus = [], incongruence = False,
      baseline_deviation = 0, analysis_summary = ''Processing...''\<rparr>
   \<and> report_analysis_frame ''2025-01-01T09:00:00.000Z''
        \<lparr>arg_dominant_emotion = Some ''Sad'', arg_confidence = Some 55,
         arg_micro_expression = Some ''Contempt'', arg_active_aus = Some [''AU4'', ''AU15''],
         arg_incongruence = Some True, arg_baseline_deviation = Some 30,
         arg_analysis_summary = Some ''Brow lowered''\<rparr>
   = \<lparr>timestamp = ''2025-01-01T09:00:00.000Z'', dominant_emotion = ''Sad'', confidence = 55,
      micro_expression = Some ''Contempt'', active_aus = [''AU4'', ''AU15''], incongruence = True,
      baseline_deviation = 30, analysis_summary = ''Brow lowered''\<rparr>"
  using report_analysis_defaults [of "''2025-01-01T09:00:00.000Z''"
        "\<lparr>arg_dominant_emotion = None, arg_confidence = None,
         arg_micro_expression = None, arg_active_aus = None,
         arg_incongruence = None, arg_baseline_deviation = None,
         arg_analysis_summary = None\<rparr>"]
    report_analysis_defaults [of "''2025-01-01T09:00:00.000Z''"
        "\<lparr>arg_dominant_emotion = Some ''Sad'', arg_confidence = Some 55,
         arg_micro_expression = Some ''Contempt'', arg_active_aus = Some [''AU4'', ''AU15''],
         arg_incongruence = Some True, arg_baseline_deviation = Some 30,
         arg_analysis_summary = Some ''Brow lowered''\<rparr>"]
  by (simp add: AnalysisFrame.equality)

section \<open>Properties of the component\<close>

text \<open>With a credential, the first piece of \<^verbatim>\<open>connect\<close> goes on to ask for the media.\<close>

lemma connect_with_credential:
  "k \<noteq> '''' \<Longrightarrow>
   connect (Some k) rt
   = AwaitingMedia (rt\<lparr>app := (app rt)\<lparr>connectionState := CONNECTING\<rparr>,
                        getUserMedia_calls := Suc (getUserMedia_calls rt)\<rparr>)"
  by (simp add: connect_def truthy_string_def dispatch_def)

text \<open>
  C6: when the credential is absent (undefined, or the empty string) and the state is
  Disconnected, \<^verbatim>\<open>connect\<close> returns at once: the only effect is a line on the console.
  The state is still Disconnected, not Connecting, \<^verbatim>\<open>getUserMedia\<close> and
  \<^verbatim>\<open>live.connect\<close> are not called, and no stream or session is stored.
\<close>

theorem connect_without_credential:
  "apiKey = None \<or> apiKey = Some '''' \<Longrightarrow> connectionState (app rt) = DISCONNECTED \<Longrightarrow>
   connect apiKey rt
     = Aborted (rt\<lparr>console := console rt @ [''API_KEY is missing in environment variables.'']\<rparr>)
   \<and> app (runtime_of (connect apiKey rt)) = app rt
   \<and> connectionState (app (runtime_of (connect apiKey rt))) = DISCONNECTED
   \<and> connectionState (app (runtime_of (connect apiKey rt))) \<noteq> CONNECTING
   \<and> getUserMedia_calls (runtime_of (connect apiKey rt)) = getUserMedia_calls rt
   \<and> live_connect_calls (runtime_of (connect apiKey rt)) = live_connect_calls rt
   \<and> streamRef (runtime_of (connect apiKey rt)) = streamRef rt
   \<and> sessionRef (runtime_of (connect apiKey rt)) = sessionRef rt
   \<and> sent (runtime_of (connect apiKey rt)) = sent rt"
  by (auto simp: connect_def truthy_string_def)

theorem connect_without_credential_witness:
  "((None :: string option) = None \<or> (None :: string option) = Some '''')
   \<and> connectionState (app (initialRuntime ''9:00:00 AM'' :: string Runtime)) = DISCONNECTED
   \<and> connect None (initialRuntime ''9:00:00 AM'' :: string Runtime)
       = Aborted ((initialRuntime ''9:00:00 AM'')
                    \<lparr>console := [''API_KEY is missing in environment variables.'']\<rparr>)
   \<and> getUserMedia_calls (runtime_of (connect None (initialRuntime ''9:00:00 AM'' :: string Runtime))) = 0
   \<and> live_connect_calls (runtime_of (connect None (initialRuntime ''9:00:00 AM'' :: string Runtime))) = 0"
proof -
  have h1: "(None :: string option) = None \<or> (None :: string option) = Some ''''" by simp
  have h2: "connectionState (app (initialRuntime ''9:00:00 AM'' :: string Runtime)) = DISCONNECTED"
    by (simp add: initialRuntime_def initialState_def)
  show ?thesis
    using connect_without_credential [OF h1 h2] h2
    by (simp add: initialRuntime_def)
qed

text \<open>
  The handler tests the mic flag of the \<^verbatim>\<open>state\<close> it closed over, not of the state
  the component has when the buffer arrives.
\<close>

lemma onaudioprocess_captured:
  "onaudioprocess createPcmBlob state session inputData rt
   = (if isMicOn state
      then rt\<lparr>sent := sent rt @ [(session, RealtimeAudio (createPcmBlob inputData))]\<rparr>
      else rt)"
  by (simp add: onaudioprocess_def)

text \<open>
  C4 on the code. First run: the component is mounted (mic on), the user connects, the
  session opens and \<^verbatim>\<open>startStreaming\<close> installs the audio handler of the render in which
  the user clicked; then the user mutes the mic. The state says the mic is off, and a
  buffer that arrives is encoded and sent all the same. Second run: the user mutes
  first, connects, and unmutes: the state says the mic is on, and the buffer is dropped.
\<close>

theorem muted_buffer_still_sent:
  "(let rt0 = initialRuntime ''9:00:00 AM'';
        rt1 = runtime_of (connect (Some ''key'') rt0);
        rt2 = connect_session_ready 7 (connect_open_session (connect_media_granted [1, 2] rt1));
        rt3 = onopen (app rt0) 7
                \<lparr>new_context = 3, new_source = 4, new_processor = 5, new_timer = 6\<rparr> rt2;
        rt4 = dispatch TOGGLE_MIC rt3
    in connectionState (app rt4) = CONNECTED
       \<and> isMicOn (app rt4) = False
       \<and> sent (audio_buffer_delivered createPcmBlob inputData rt4)
           = sent rt4 @ [(7, RealtimeAudio (createPcmBlob inputData))])
   \<and> (let rt0 = dispatch TOGGLE_MIC (initialRuntime ''9:00:00 AM'');
        rt1 = runtime_of (connect (Some ''key'') rt0);
        rt2 = connect_session_ready 7 (connect_open_session (connect_media_granted [1, 2] rt1));
        rt3 = onopen (app rt0) 7
                \<lparr>new_context = 3, new_source = 4, new_processor = 5, new_timer = 6\<rparr> rt2;
        rt4 = dispatch TOGGLE_MIC rt3
    in connectionState (app rt4) = CONNECTED
       \<and> isMicOn (app rt4) = True
       \<and> audio_buffer_delivered createPcmBlob inputData rt4 = rt4)"
  by (simp add: Let_def initialRuntime_def initialState_def connect_def truthy_string_def
      dispatch_def connect_media_granted_def connect_open_session_def connect_session_ready_def
      onopen_def startStreaming_def audio_buffer_delivered_def onaudioprocess_def)

lemma images_append: "images (xs @ ys) = images xs @ images ys"
  by (induction xs rule: images.induct) simp_all

lemma frame_tick_cases:
  "frame_tick session env rt = rt
   \<or> frame_tick session env rt = rt\<lparr>processingRef := False\<rparr> \<and> \<not> processingRef rt
   \<or> frame_tick session env rt
       = rt\<lparr>processingRef := True,
             sent := sent rt @ [(session, RealtimeImage ''image/jpeg'' (jpeg_base64 env))]\<rparr>
     \<and> \<not> processingRef rt"
  by (simp add: frame_tick_def Let_def)

lemma frame_tick_sent:
  "sent (frame_tick session env rt) = sent rt
   \<or> sent (frame_tick session env rt)
       = sent rt @ [(session, RealtimeImage ''image/jpeg'' (jpeg_base64 env))]"
  by (simp add: frame_tick_def Let_def)

lemma frame_tick_settled_sent: "sent (frame_tick_settled rejected rt) = sent rt"
  by (simp add: frame_tick_settled_def Let_def)

lemma frame_tick_settled_flag: "processingRef (frame_tick_settled rejected rt) = False"
  by (simp add: frame_tick_settled_def Let_def)

lemma run_video_sent:
  "\<exists>ys. sent (run_video session evs rt) = sent rt @ ys \<and> subseq (images ys) (tick_frames evs)"
proof (induction evs arbitrary: rt)
  case Nil
  show ?case by simp
next
  case (Cons ev evs)
  show ?case
  proof (cases ev)
    case (Tick env)
    obtain ys where ys: "sent (run_video session evs (frame_tick session env rt))
                          = sent (frame_tick session env rt) @ ys"
      and sub: "subseq (images ys) (tick_frames evs)"
      using Cons.IH by blast
    from frame_tick_sent [of session env rt] show ?thesis
    proof
      assume "sent (frame_tick session env rt) = sent rt"
      with ys sub Tick show ?thesis by (auto intro: subseq_Cons')
    next
      assume a: "sent (frame_tick session env rt)
                 = sent rt @ [(session, RealtimeImage ''image/jpeg'' (jpeg_base64 env))]"
      have "subseq (images ((session, RealtimeImage ''image/jpeg'' (jpeg_base64 env)) # ys))
                   (tick_frames (ev # evs))"
        using sub Tick by simp
      with ys a Tick show ?thesis by auto
    qed
  next
    case (SendSettled rejected)
    with Cons.IH [of "frame_tick_settled rejected rt"] show ?thesis
      by (simp add: frame_tick_settled_sent)
  qed
qed


lemma run_video_serialized:
  "length (images (sent (run_video session evs rt))) + (if processingRef rt then 1 else 0)
   \<le> length (images (sent rt)) + Suc (settlements evs)"
proof (induction evs arbitrary: rt)
  case Nil
  show ?case by simp
next
  case (Cons ev evs)
  show ?case
  proof (cases ev)
    case (Tick env)
    from frame_tick_cases [of session env rt] Cons.IH [of "frame_tick session env rt"] Tick
    show ?thesis
      by (auto simp: images_append split: if_splits)
  next
    case (SendSettled rejected)
    have "length (images (sent (run_video session evs (frame_tick_settled rejected rt))))
          \<le> length (images (sent rt)) + Suc (settlements evs)"
      using Cons.IH [of "frame_tick_settled rejected rt"]
      by (simp add: frame_tick_settled_sent frame_tick_settled_flag)
    with SendSettled show ?thesis by simp
  qed
qed

text \<open>
  C7: a tick that fires while the guard flag is set changes nothing: no capture, no
  message, nothing kept for later. So over any schedule of ticks and settlements the
  images sent are a subsequence of the frames on display at the ticks, in the order of
  the ticks (a frame may be missing, none is out of order and no tick sends twice), and
  every image but the first is sent after the send before it has settled.
\<close>

theorem video_tick_skipped_while_in_flight:
  "(processingRef rt \<longrightarrow> frame_tick session env rt = rt)
   \<and> (\<exists>ys. sent (run_video session evs rt) = sent rt @ ys
            \<and> subseq (images ys) (tick_frames evs))
   \<and> length (images (sent (run_video session evs rt))) + (if processingRef rt then 1 else 0)
       \<le> length (images (sent rt)) + Suc (settlements evs)"
  using run_video_sent [of session evs rt] run_video_serialized [of session evs rt]
  by (simp add: frame_tick_def)

theorem video_tick_skipped_while_in_flight_witness:
  "processingRef (frame_tick 7 (ready_env ''AAAA'') (initialRuntime ''9:00:00 AM'' :: string Runtime))
   \<and> frame_tick 7 (ready_env ''BBBB'')
        (frame_tick 7 (ready_env ''AAAA'') (initialRuntime ''9:00:00 AM'' :: string Runtime))
      = frame_tick 7 (ready_env ''AAAA'') (initialRuntime ''9:00:00 AM'')
   \<and> images (sent (run_video 7
         [Tick (ready_env ''AAAA''), Tick (ready_env ''BBBB''), SendSettled False,
          Tick (ready_env ''CCCC'')]
         (initialRuntime ''9:00:00 AM'' :: string Runtime)))
      = [''AAAA'', ''CCCC'']"
proof -
  have h: "processingRef (frame_tick 7 (ready_env ''AAAA'') (initialRuntime ''9:00:00 AM'' :: string Runtime))"
    by (simp add: frame_tick_def ready_env_def initialRuntime_def Let_def)
  have skip: "frame_tick 7 (ready_env ''BBBB'')
        (frame_tick 7 (ready_env ''AAAA'') (initialRuntime ''9:00:00 AM'' :: string Runtime))
      = frame_tick 7 (ready_env ''AAAA'') (initialRuntime ''9:00:00 AM'')"
    using video_tick_skipped_while_in_flight
      [of "frame_tick 7 (ready_env ''AAAA'') (initialRuntime ''9:00:00 AM'' :: string Runtime)"
          7 "ready_env ''BBBB''" "[]"] h
    by blast
  have run: "images (sent (run_video 7
         [Tick (ready_env ''AAAA''), Tick (ready_env ''BBBB''), SendSettled False,
          Tick (ready_env ''CCCC'')]
         (initialRuntime ''9:00:00 AM'' :: string Runtime)))
      = [''AAAA'', ''CCCC'']"
    by (simp add: frame_tick_def frame_tick_settled_def ready_env_def initialRuntime_def Let_def)
  from h skip run show ?thesis by blast
qed

lemma clear_frame_interval_eq:
  "clear_frame_interval rt
   = rt\<lparr>intervals := unscheduled (frameIntervalRef rt) (intervals rt)\<rparr>"
  by (cases "frameIntervalRef rt") (simp_all add: clear_frame_interval_def)

lemma disconnect_processor_eq:
  "disconnect_processor rt
   = rt\<lparr>connected_nodes := without (processorRef rt) (connected_nodes rt), processorRef := None\<rparr>"
  by (cases "processorRef rt") (simp_all add: disconnect_processor_def)


lemma disconnect_source_eq:
  "disconnect_source rt
   = rt\<lparr>connected_nodes := without (sourceRef rt) (connected_nodes rt), sourceRef := None\<rparr>"
  by (cases "sourceRef rt") (simp_all add: disconnect_source_def)

lemma close_audio_context_eq:
  "close_audio_context rt
   = rt\<lparr>open_contexts := without (audioContextRef rt) (open_contexts rt), audioContextRef := None\<rparr>"
  by (cases "audioContextRef rt") (simp_all add: close_audio_context_def)

lemma stop_tracks_eq:
  "stop_tracks rt
   = rt\<lparr>live_tracks := without_tracks (streamRef rt) (live_tracks rt),
         streamRef := None\<rparr>"
  by (cases "streamRef rt") (simp_all add: stop_tracks_def)

lemma stopStreaming_eq:
  "stopStreaming rt
   = rt\<lparr>intervals := unscheduled (frameIntervalRef rt) (intervals rt),
         connected_nodes := without (sourceRef rt) (without (processorRef rt) (connected_nodes rt)),
         processorRef := None,
         sourceRef := None,
         open_contexts := without (audioContextRef rt) (open_contexts rt),
         audioContextRef := None,
         live_tracks := without_tracks (streamRef rt) (live_tracks rt),
         streamRef := None,
         sessionRef := None\<rparr>"
  by (simp add: stopStreaming_def clear_frame_interval_eq disconnect_processor_eq
      disconnect_source_eq close_audio_context_eq stop_tracks_eq)

lemma unscheduled_twice: "unscheduled r (unscheduled r xs) = unscheduled r xs"
  by (cases r) simp_all

lemma stopStreaming_idem: "stopStreaming (stopStreaming rt) = stopStreaming rt"
  by (subst stopStreaming_eq) (simp add: stopStreaming_eq unscheduled_twice)

lemma stopStreaming_dispatch: "stopStreaming (dispatch a rt) = dispatch a (stopStreaming rt)"
  by (simp add: stopStreaming_eq dispatch_def)

lemma dispatch_set_connection_twice:
  "dispatch (SET_CONNECTION c) (dispatch (SET_CONNECTION c) rt) = dispatch (SET_CONNECTION c) rt"
  by (simp add: dispatch_def)

lemma disconnect_twice: "disconnect (disconnect rt) = disconnect rt"
  by (simp add: disconnect_def stopStreaming_dispatch stopStreaming_idem
      dispatch_set_connection_twice)

lemma nothing_held_stopStreaming: "nothing_held (stopStreaming rt)"
  by (cases "frameIntervalRef rt") (simp_all add: nothing_held_def stopStreaming_eq)

lemma stopStreaming_nothing_held: "nothing_held rt \<Longrightarrow> stopStreaming rt = rt"
  by (cases "frameIntervalRef rt") (auto simp: nothing_held_def stopStreaming_eq)

lemma dispatch_same_connection:
  "connectionState (app rt) = c \<Longrightarrow> dispatch (SET_CONNECTION c) rt = rt"
  by (auto simp: dispatch_def)

text \<open>
  C8: \<^verbatim>\<open>disconnect\<close> is idempotent. A second call changes nothing that the first left;
  after a call the state is Disconnected and nothing is held; called when the state is
  Disconnected and nothing is held (nothing was ever acquired, or it was all released)
  it changes nothing at all; and for each resource that was never acquired its teardown
  step changes nothing. The model has no error to raise: \<^verbatim>\<open>stopStreaming\<close> uses every
  object under a test that it is there.
\<close>

theorem disconnect_idempotent:
  "disconnect (disconnect rt) = disconnect rt
   \<and> connectionState (app (disconnect rt)) = DISCONNECTED
   \<and> nothing_held (disconnect rt)
   \<and> (connectionState (app rt) = DISCONNECTED \<and> nothing_held rt \<longrightarrow> disconnect rt = rt)
   \<and> (frameIntervalRef rt = None \<longrightarrow> intervals (disconnect rt) = intervals rt)
   \<and> (processorRef rt = None \<and> sourceRef rt = None
        \<longrightarrow> connected_nodes (disconnect rt) = connected_nodes rt)
   \<and> (audioContextRef rt = None \<longrightarrow> open_contexts (disconnect rt) = open_contexts rt)
   \<and> (streamRef rt = None \<longrightarrow> live_tracks (disconnect rt) = live_tracks rt)"
proof -
  have st: "connectionState (app (disconnect rt)) = DISCONNECTED"
    by (simp add: disconnect_def dispatch_def)
  have held: "nothing_held (disconnect rt)"
    using nothing_held_stopStreaming [of rt]
    by (simp add: disconnect_def dispatch_def nothing_held_def cong: option.case_cong)
  have same: "connectionState (app rt) = DISCONNECTED \<and> nothing_held rt \<longrightarrow> disconnect rt = rt"
    by (simp add: disconnect_def stopStreaming_nothing_held dispatch_same_connection)
  have timers: "frameIntervalRef rt = None \<longrightarrow> intervals (disconnect rt) = intervals rt"
    by (simp add: disconnect_def dispatch_def stopStreaming_eq)
  have nodes: "processorRef rt = None \<and> sourceRef rt = None
        \<longrightarrow> connected_nodes (disconnect rt) = connected_nodes rt"
    by (simp add: disconnect_def dispatch_def stopStreaming_eq)
  have ctxs: "audioContextRef rt = None \<longrightarrow> open_contexts (disconnect rt) = open_contexts rt"
    by (simp add: disconnect_def dispatch_def stopStreaming_eq)
  have tracks: "streamRef rt = None \<longrightarrow> live_tracks (disconnect rt) = live_tracks rt"
    by (simp add: disconnect_def dispatch_def stopStreaming_eq)
  from disconnect_twice st held same timers nodes ctxs tracks show ?thesis by blast
qed


text \<open>
  The component as mounted: the hypotheses hold, and \<^verbatim>\<open>disconnect\<close> leaves it as it is.
\<close>

theorem disconnect_idempotent_witness:
  "connectionState (app (initialRuntime ''9:00:00 AM'' :: string Runtime)) = DISCONNECTED
   \<and> nothing_held (initialRuntime ''9:00:00 AM'' :: string Runtime)
   \<and> frameIntervalRef (initialRuntime ''9:00:00 AM'' :: string Runtime) = None
   \<and> processorRef (initialRuntime ''9:00:00 AM'' :: string Runtime) = None
   \<and> sourceRef (initialRuntime ''9:00:00 AM'' :: string Runtime) = None
   \<and> audioContextRef (initialRuntime ''9:00:00 AM'' :: string Runtime) = None
   \<and> streamRef (initialRuntime ''9:00:00 AM'' :: string Runtime) = None
   \<and> disconnect (initialRuntime ''9:00:00 AM'' :: string Runtime) = initialRuntime ''9:00:00 AM''
   \<and> intervals (disconnect (initialRuntime ''9:00:00 AM'' :: string Runtime)) = []
   \<and> connected_nodes (disconnect (initialRuntime ''9:00:00 AM'' :: string Runtime)) = []
   \<and> open_contexts (disconnect (initialRuntime ''9:00:00 AM'' :: string Runtime)) = []
   \<and> live_tracks (disconnect (initialRuntime ''9:00:00 AM'' :: string Runtime)) = []"
proof -
  have h: "connectionState (app (initialRuntime ''9:00:00 AM'' :: string Runtime)) = DISCONNECTED"
    "nothing_held (initialRuntime ''9:00:00 AM'' :: string Runtime)"
    "frameIntervalRef (initialRuntime ''9:00:00 AM'' :: string Runtime) = None"
    "processorRef (initialRuntime ''9:00:00 AM'' :: string Runtime) = None"
    "sourceRef (initialRuntime ''9:00:00 AM'' :: string Runtime) = None"
    "audioContextRef (initialRuntime ''9:00:00 AM'' :: string Runtime) = None"
    "streamRef (initialRuntime ''9:00:00 AM'' :: string Runtime) = None"
    "intervals (initialRuntime ''9:00:00 AM'' :: string Runtime) = []"
    "connected_nodes (initialRuntime ''9:00:00 AM'' :: string Runtime) = []"
    "open_contexts (initialRuntime ''9:00:00 AM'' :: string Runtime) = []"
    "live_tracks (initialRuntime ''9:00:00 AM'' :: string Runtime) = []"
    by (simp_all add: initialRuntime_def initialState_def nothing_held_def)
  from disconnect_idempotent [of "initialRuntime ''9:00:00 AM'' :: string Runtime"] h
  show ?thesis by simp
qed

end
